theory Spec2Isabelle
  imports Main
begin

section \<open>The JavaScript values the controller computes with\<close>

text \<open>
  The \<^verbatim>\<open>Posts\<close> component reads the fields \<^verbatim>\<open>page\<close>, \<^verbatim>\<open>perPage\<close>, \<^verbatim>\<open>pageCount\<close>,
  \<^verbatim>\<open>totalCount\<close> and \<^verbatim>\<open>loading\<close> of a pagination object that starts out as \<^verbatim>\<open>{}\<close>.
  A field is therefore \<^verbatim>\<open>undefined\<close>, a boolean or a number. A number is a double.
  The model has the doubles whose value is an integer (\<open>JNum n\<close>, for the \<open>n\<close> that a
  double can hold; every count of the data model is one), the two infinities, which
  multiplying such numbers can reach, and \<^verbatim>\<open>NaN\<close>, which is what arithmetic on
  \<^verbatim>\<open>undefined\<close> produces. The two zeros are one value: no operator used here tells
  them apart. Strings, objects and fractions are outside the model.
\<close>

datatype jsval = JUndefined | JBool bool | JNum int | JNaN | JPosInf | JNegInf

text \<open>
  The result of \<^verbatim>\<open>+\<close>, \<^verbatim>\<open>-\<close> and \<^verbatim>\<open>*\<close> on doubles is the exact result rounded to the
  nearest double, to the one with the even significand on a tie. Every integer up to
  \<open>2 ^ 53\<close> in magnitude is a double. A larger one has more than 53 binary digits
  (\<open>bitlen\<close> counts them): the doubles around it are the multiples of
  \<open>u = 2 ^ (bitlen a - 53)\<close>, and a rounded magnitude of \<open>2 ^ 1024\<close> or more is an
  infinity.
\<close>

fun bitlen :: "nat \<Rightarrow> nat" where
  "bitlen n = (if n = 0 then 0 else Suc (bitlen (n div 2)))"

declare bitlen.simps [simp del]

definition round_double :: "int \<Rightarrow> jsval" where
  "round_double x =
     (if \<bar>x\<bar> \<le> 2 ^ 53 then JNum x
      else
        (let a = nat \<bar>x\<bar>;
             u = 2 ^ (bitlen a - 53);
             q = a div u;
             r = a mod u;
             q' = (if 2 * r < u \<or> (2 * r = u \<and> even q) then q else q + 1);
             m = q' * u
         in if 2 ^ 1024 \<le> m then (if x < 0 then JNegInf else JPosInf)
            else JNum (if x < 0 then - int m else int m)))"

text \<open>\<^verbatim>\<open>ToNumber\<close> of the language definition, on the values of the model.\<close>

fun ToNumber :: "jsval \<Rightarrow> jsval" where
  "ToNumber JUndefined = JNaN"
| "ToNumber (JBool b) = JNum (if b then 1 else 0)"
| "ToNumber (JNum n) = JNum n"
| "ToNumber JNaN = JNaN"
| "ToNumber JPosInf = JPosInf"
| "ToNumber JNegInf = JNegInf"

fun ToBoolean :: "jsval \<Rightarrow> bool" where
  "ToBoolean JUndefined = False"
| "ToBoolean (JBool b) = b"
| "ToBoolean (JNum n) = (n \<noteq> 0)"
| "ToBoolean JNaN = False"
| "ToBoolean JPosInf = True"
| "ToBoolean JNegInf = True"

text \<open>
  Addition, subtraction and multiplication of two numbers. \<^verbatim>\<open>NaN\<close> is absorbing;
  infinities of opposite direction do not add up, equal ones do not subtract, and an
  infinity times zero is \<^verbatim>\<open>NaN\<close>.
\<close>

fun num_add :: "jsval \<Rightarrow> jsval \<Rightarrow> jsval" where
  "num_add (JNum a) (JNum b) = round_double (a + b)"
| "num_add (JNum a) JPosInf = JPosInf"
| "num_add (JNum a) JNegInf = JNegInf"
| "num_add JPosInf (JNum b) = JPosInf"
| "num_add JPosInf JPosInf = JPosInf"
| "num_add JNegInf (JNum b) = JNegInf"
| "num_add JNegInf JNegInf = JNegInf"
| "num_add _ _ = JNaN"

fun num_sub :: "jsval \<Rightarrow> jsval \<Rightarrow> jsval" where
  "num_sub (JNum a) (JNum b) = round_double (a - b)"
| "num_sub (JNum a) JPosInf = JNegInf"
| "num_sub (JNum a) JNegInf = JPosInf"
| "num_sub JPosInf (JNum b) = JPosInf"
| "num_sub JPosInf JNegInf = JPosInf"
| "num_sub JNegInf (JNum b) = JNegInf"
| "num_sub JNegInf JPosInf = JNegInf"
| "num_sub _ _ = JNaN"

fun num_mul :: "jsval \<Rightarrow> jsval \<Rightarrow> jsval" where
  "num_mul (JNum a) (JNum b) = round_double (a * b)"
| "num_mul (JNum a) JPosInf = (if a = 0 then JNaN else if a < 0 then JNegInf else JPosInf)"
| "num_mul (JNum a) JNegInf = (if a = 0 then JNaN else if a < 0 then JPosInf else JNegInf)"
| "num_mul JPosInf (JNum b) = (if b = 0 then JNaN else if b < 0 then JNegInf else JPosInf)"
| "num_mul JNegInf (JNum b) = (if b = 0 then JNaN else if b < 0 then JPosInf else JNegInf)"
| "num_mul JPosInf JPosInf = JPosInf"
| "num_mul JPosInf JNegInf = JNegInf"
| "num_mul JNegInf JPosInf = JNegInf"
| "num_mul JNegInf JNegInf = JPosInf"
| "num_mul _ _ = JNaN"

text \<open>
  The binary operators \<^verbatim>\<open>+\<close> (no operand being a string), \<^verbatim>\<open>-\<close> and \<^verbatim>\<open>*\<close> convert
  both operands with \<^verbatim>\<open>ToNumber\<close>.
\<close>

definition js_add :: "jsval \<Rightarrow> jsval \<Rightarrow> jsval" where
  "js_add a b = num_add (ToNumber a) (ToNumber b)"

definition js_sub :: "jsval \<Rightarrow> jsval \<Rightarrow> jsval" where
  "js_sub a b = num_sub (ToNumber a) (ToNumber b)"

definition js_mul :: "jsval \<Rightarrow> jsval \<Rightarrow> jsval" where
  "js_mul a b = num_mul (ToNumber a) (ToNumber b)"

text \<open>
  \<^verbatim>\<open>a <= b\<close>: the comparison of the two numbers, false when one of them is \<^verbatim>\<open>NaN\<close>.
\<close>

fun num_le :: "jsval \<Rightarrow> jsval \<Rightarrow> bool" where
  "num_le (JNum a) (JNum b) = (a \<le> b)"
| "num_le (JNum a) JPosInf = True"
| "num_le JNegInf (JNum b) = True"
| "num_le JNegInf JNegInf = True"
| "num_le JNegInf JPosInf = True"
| "num_le JPosInf JPosInf = True"
| "num_le _ _ = False"

definition js_le :: "jsval \<Rightarrow> jsval \<Rightarrow> bool" where
  "js_le a b = num_le (ToNumber a) (ToNumber b)"

text \<open>\<^verbatim>\<open>!a\<close>.\<close>

definition js_not :: "jsval \<Rightarrow> bool" where
  "js_not a = (\<not> ToBoolean a)"

text \<open>\<^verbatim>\<open>a === b\<close>: no conversion, and \<^verbatim>\<open>NaN\<close> differs from itself.\<close>

fun js_strict_eq :: "jsval \<Rightarrow> jsval \<Rightarrow> bool" where
  "js_strict_eq JUndefined JUndefined = True"
| "js_strict_eq (JBool a) (JBool b) = (a = b)"
| "js_strict_eq (JNum a) (JNum b) = (a = b)"
| "js_strict_eq JPosInf JPosInf = True"
| "js_strict_eq JNegInf JNegInf = True"
| "js_strict_eq _ _ = False"

text \<open>
  An object is a finite map from property names to values. Reading a property that the
  object does not have gives \<^verbatim>\<open>undefined\<close>; the spread \<^verbatim>\<open>{ ...o, loading: v }\<close> is
  the map \<open>o(''loading'' \<mapsto> v)\<close>.
\<close>

type_synonym jsobj = "string \<rightharpoonup> jsval"

definition js_get :: "jsobj \<Rightarrow> string \<Rightarrow> jsval" where
  "js_get obj k = (case obj k of None \<Rightarrow> JUndefined | Some v \<Rightarrow> v)"


section \<open>The component\<close>

text \<open>
  A row of the list view's data source is a post (opaque to the component, type \<open>'a\<close>)
  or the object \<^verbatim>\<open>{ type: 'Loading', loading: v }\<close> that \<^verbatim>\<open>_update\<close> appends.
\<close>

datatype 'a row = PostRow 'a | LoadingRow jsval

text \<open>The payload a resolved \<^verbatim>\<open>API.getPosts\<close> promise carries.\<close>

record 'a result =
  r_pagination :: jsobj
  records :: "'a list"

text \<open>
  What the component does to its collaborators, in the order it does it:
  \<^verbatim>\<open>this.setState\<close> with the three keys it passes (the data source is modelled by the
  rows given to \<^verbatim>\<open>cloneWithRows\<close>), \<^verbatim>\<open>API.getPosts(page)\<close> and \<^verbatim>\<open>console.error\<close>.
\<close>

datatype ('a, 'e) effect =
    SetState jsobj "'a list" "'a row list"
  | Fetch jsval
  | ConsoleError 'e

text \<open>
  \<^verbatim>\<open>this.state\<close> together with the trace of effects so far. Every method reads
  \<^verbatim>\<open>this.state\<close> before its single \<^verbatim>\<open>setState\<close> call, so the state is updated in place.
\<close>

record ('a, 'e) component =
  pagination :: jsobj
  posts :: "'a list"
  ds :: "'a row list"
  effects :: "('a, 'e) effect list"

definition constructor :: "('a, 'e) component" where
  "constructor = \<lparr>pagination = Map.empty, posts = [], ds = [], effects = []\<rparr>"

definition update :: "jsobj \<Rightarrow> 'a list \<Rightarrow> ('a, 'e) component \<Rightarrow> ('a, 'e) component" where
  "update pg ps c =
     (let loading = LoadingRow (js_get pg ''loading'');
          rows = map PostRow ps @ [loading]
      in c\<lparr>pagination := pg, posts := ps, ds := rows,
            effects := effects c @ [SetState pg ps rows]\<rparr>)"

definition getPostsRequest :: "('a, 'e) component \<Rightarrow> ('a, 'e) component" where
  "getPostsRequest c =
     (let pg = (pagination c)(''loading'' \<mapsto> JBool True)
      in update pg (posts c) c)"

definition getPostsSuccess :: "'a result \<Rightarrow> ('a, 'e) component \<Rightarrow> ('a, 'e) component" where
  "getPostsSuccess r c =
     (let pg = (r_pagination r)(''loading'' \<mapsto> JBool False);
          ps = (if js_strict_eq (js_get pg ''page'') (JNum 1) then records r
                else posts c @ records r)
      in update pg ps c)"

definition getPostsFailure :: "'e \<Rightarrow> ('a, 'e) component \<Rightarrow> ('a, 'e) component" where
  "getPostsFailure err c =
     (let pg = (pagination c)(''loading'' \<mapsto> JBool False);
          c1 = update pg (posts c) c
      in c1\<lparr>effects := effects c1 @ [ConsoleError err]\<rparr>)"

text \<open>
  \<^verbatim>\<open>_getPosts\<close> up to the point where it returns: the promise is pending. Its settlement
  is a later event, see \<open>settle\<close>.
\<close>

definition getPosts :: "jsval \<Rightarrow> ('a, 'e) component \<Rightarrow> ('a, 'e) component" where
  "getPosts page c =
     (let c1 = getPostsRequest c
      in c1\<lparr>effects := effects c1 @ [Fetch page]\<rparr>)"

definition componentWillMount :: "('a, 'e) component \<Rightarrow> ('a, 'e) component" where
  "componentWillMount c = getPosts (JNum 1) c"

definition onRefresh :: "('a, 'e) component \<Rightarrow> ('a, 'e) component" where
  "onRefresh c = getPosts (JNum 1) c"

text \<open>The right-hand side of the comparison in \<^verbatim>\<open>_onEndReached\<close>, and the comparison.\<close>

definition loadedCount :: "jsobj \<Rightarrow> jsval" where
  "loadedCount pg =
     js_add (js_mul (js_sub (js_get pg ''page'') (JNum 1)) (js_get pg ''perPage''))
            (js_get pg ''pageCount'')"

definition lastPage :: "jsobj \<Rightarrow> bool" where
  "lastPage pg = js_le (js_get pg ''totalCount'') (loadedCount pg)"

definition onEndReached :: "('a, 'e) component \<Rightarrow> ('a, 'e) component" where
  "onEndReached c =
     (let pg = pagination c;
          page = js_get pg ''page''
      in if js_not (js_get pg ''loading'') \<and> \<not> lastPage pg
         then getPosts (js_add page (JNum 1)) c
         else c)"

text \<open>
  The promise of \<^verbatim>\<open>_getPosts\<close> settles: \<^verbatim>\<open>.then\<close> runs \<^verbatim>\<open>_getPostsSuccess\<close> on the
  payload, \<^verbatim>\<open>.catch\<close> runs \<^verbatim>\<open>_getPostsFailure\<close> on the rejection. With a payload of
  the documented shape (an object and an array) \<^verbatim>\<open>_getPostsSuccess\<close> does not throw, so
  \<^verbatim>\<open>.catch\<close> sees rejections of the API's promise only. Neither handler returns a
  value to anyone: \<^verbatim>\<open>_getPosts\<close> has returned before the promise settles and drops the
  chained promise.
\<close>

datatype ('a, 'e) settlement = Resolved "'a result" | Rejected 'e

fun settle :: "('a, 'e) settlement \<Rightarrow> ('a, 'e) component \<Rightarrow> ('a, 'e) component" where
  "settle (Resolved r) c = getPostsSuccess r c"
| "settle (Rejected err) c = getPostsFailure err c"

text \<open>The pages asked of the fetch collaborator, in order.\<close>

fun fetches :: "('a, 'e) effect list \<Rightarrow> jsval list" where
  "fetches [] = []"
| "fetches (Fetch p # es) = p # fetches es"
| "fetches (_ # es) = fetches es"

text \<open>The list \<^verbatim>\<open>[ ...posts, loading ]\<close> for a given state.\<close>

definition renderList :: "jsobj \<Rightarrow> 'a list \<Rightarrow> 'a row list" where
  "renderList pg ps = map PostRow ps @ [LoadingRow (js_get pg ''loading'')]"

text \<open>The test \<^verbatim>\<open>row.type === 'Loading'\<close> of \<^verbatim>\<open>_renderRow\<close>; a post has no such type.\<close>

fun isLoading :: "'a row \<Rightarrow> bool" where
  "isLoading (LoadingRow _) = True"
| "isLoading (PostRow _) = False"

text \<open>
  The pagination object of a payload, with the four fields the README documents:
  \<^verbatim>\<open>{ page, perPage, pageCount, totalCount }\<close>.
\<close>

definition pageInfo :: "int \<Rightarrow> int \<Rightarrow> int \<Rightarrow> int \<Rightarrow> jsobj" where
  "pageInfo pg pp pc tc =
     [''page'' \<mapsto> JNum pg, ''perPage'' \<mapsto> JNum pp,
      ''pageCount'' \<mapsto> JNum pc, ''totalCount'' \<mapsto> JNum tc]"

text \<open>
  The run of the README's example: 22 posts in pages of 10. The component mounts, page 1
  resolves, the end of the list is reached, page 2 resolves (\<open>afterPage2\<close>); the end is
  reached again and page 3 resolves with the last 2 posts (\<open>afterPage3\<close>).
\<close>

definition afterPage1 :: "'a list \<Rightarrow> ('a, 'e) component" where
  "afterPage1 r1 =
     settle (Resolved \<lparr>r_pagination = pageInfo 1 10 10 22, records = r1\<rparr>)
       (componentWillMount constructor)"

definition afterPage2 :: "'a list \<Rightarrow> 'a list \<Rightarrow> ('a, 'e) component" where
  "afterPage2 r1 r2 =
     settle (Resolved \<lparr>r_pagination = pageInfo 2 10 10 22, records = r2\<rparr>)
       (onEndReached (afterPage1 r1))"

definition afterPage3 :: "'a list \<Rightarrow> 'a list \<Rightarrow> 'a list \<Rightarrow> ('a, 'e) component" where
  "afterPage3 r1 r2 r3 =
     settle (Resolved \<lparr>r_pagination = pageInfo 3 10 2 22, records = r3\<rparr>)
       (onEndReached (afterPage2 r1 r2))"

text \<open>
  A run in which a response overtakes another: page 1 of 6 posts (2 a page) has arrived
  (\<open>beforePage2\<close>); the end of the list is reached and page 2 is requested; before it
  settles the list is refreshed, and the refresh resolves with page 1 of what are now 9
  posts (3 a page); then the request for page 2 is rejected (\<open>overtaken\<close>).
\<close>

definition beforePage2 :: "(nat, unit) component" where
  "beforePage2 =
     settle (Resolved \<lparr>r_pagination = pageInfo 1 2 2 6, records = [1, 2]\<rparr>)
       (componentWillMount constructor)"

definition overtaken :: "(nat, unit) component" where
  "overtaken =
     settle (Rejected ())
       (settle (Resolved \<lparr>r_pagination = pageInfo 1 3 3 9, records = [7, 8, 9]\<rparr>)
          (onRefresh (onEndReached beforePage2)))"


section \<open>What each method does to the state and to the trace\<close>

lemma fetches_append: "fetches (xs @ ys) = fetches xs @ fetches ys"
  by (induction xs rule: fetches.induct) simp_all

lemma update_fields:
  "pagination (update pg ps c) = pg"
  "posts (update pg ps c) = ps"
  "ds (update pg ps c) = renderList pg ps"
  "effects (update pg ps c) = effects c @ [SetState pg ps (renderList pg ps)]"
  by (simp_all add: update_def renderList_def Let_def)

lemma js_get_upd:
  "js_get (obj(k \<mapsto> v)) k' = (if k' = k then v else js_get obj k')"
  by (simp add: js_get_def)

lemma getPostsRequest_fields:
  "pagination (getPostsRequest c) = (pagination c)(''loading'' \<mapsto> JBool True)"
  "posts (getPostsRequest c) = posts c"
  "effects (getPostsRequest c) =
     effects c @
     [SetState ((pagination c)(''loading'' \<mapsto> JBool True)) (posts c)
        (map PostRow (posts c) @ [LoadingRow (JBool True)])]"
  by (simp_all add: getPostsRequest_def Let_def update_fields renderList_def js_get_upd)

lemma getPostsSuccess_fields:
  "pagination (getPostsSuccess r c) = (r_pagination r)(''loading'' \<mapsto> JBool False)"
  "posts (getPostsSuccess r c) =
     (if js_strict_eq (js_get (r_pagination r) ''page'') (JNum 1) then records r
      else posts c @ records r)"
  "effects (getPostsSuccess r c) =
     effects c @
     [SetState (pagination (getPostsSuccess r c)) (posts (getPostsSuccess r c))
        (map PostRow (posts (getPostsSuccess r c)) @ [LoadingRow (JBool False)])]"
  by (simp_all add: getPostsSuccess_def Let_def update_fields renderList_def js_get_upd)

lemma getPostsFailure_fields:
  "pagination (getPostsFailure e c) = (pagination c)(''loading'' \<mapsto> JBool False)"
  "posts (getPostsFailure e c) = posts c"
  "effects (getPostsFailure e c) =
     effects c @
     [SetState ((pagination c)(''loading'' \<mapsto> JBool False)) (posts c)
        (map PostRow (posts c) @ [LoadingRow (JBool False)]),
      ConsoleError e]"
  by (simp_all add: getPostsFailure_def Let_def update_fields renderList_def js_get_upd)

lemma getPosts_fields:
  "pagination (getPosts n c) = (pagination c)(''loading'' \<mapsto> JBool True)"
  "posts (getPosts n c) = posts c"
  "effects (getPosts n c) =
     effects c @
     [SetState ((pagination c)(''loading'' \<mapsto> JBool True)) (posts c)
        (map PostRow (posts c) @ [LoadingRow (JBool True)]),
      Fetch n]"
  by (simp_all add: getPosts_def Let_def getPostsRequest_fields)

lemma fetches_getPostsSuccess:
  "fetches (effects (getPostsSuccess r c)) = fetches (effects c)"
  by (simp add: getPostsSuccess_fields fetches_append)

lemma fetches_getPosts: "fetches (effects (getPosts n c)) = fetches (effects c) @ [n]"
  by (simp add: getPosts_fields fetches_append)


section \<open>Pagination arithmetic\<close>

lemma round_double_exact: "\<bar>x\<bar> \<le> 2 ^ 53 \<Longrightarrow> round_double x = JNum x"
  by (simp add: round_double_def)

lemma js_sub_exact: "\<bar>a - b\<bar> \<le> 2 ^ 53 \<Longrightarrow> js_sub (JNum a) (JNum b) = JNum (a - b)"
  by (simp add: js_sub_def round_double_exact)

lemma js_mul_exact: "\<bar>a * b\<bar> \<le> 2 ^ 53 \<Longrightarrow> js_mul (JNum a) (JNum b) = JNum (a * b)"
  by (simp add: js_mul_def round_double_exact)

lemma js_add_exact: "\<bar>a + b\<bar> \<le> 2 ^ 53 \<Longrightarrow> js_add (JNum a) (JNum b) = JNum (a + b)"
  by (simp add: js_add_def round_double_exact)

lemma js_le_num: "js_le (JNum a) (JNum b) = (a \<le> b)"
  by (simp add: js_le_def)

lemma js_get_pageInfo:
  "js_get (pageInfo pg pp pc tc) ''page'' = JNum pg"
  "js_get (pageInfo pg pp pc tc) ''perPage'' = JNum pp"
  "js_get (pageInfo pg pp pc tc) ''pageCount'' = JNum pc"
  "js_get (pageInfo pg pp pc tc) ''totalCount'' = JNum tc"
  by (simp_all add: pageInfo_def js_get_def)

text \<open>
  While the three intermediate results of line 102 stay within \<open>2 ^ 53\<close> nothing is
  rounded, and the comparison is the inequality between the integers.
\<close>

lemma loadedCount_numeric:
  assumes "\<bar>pg - 1\<bar> \<le> 2 ^ 53" and "\<bar>(pg - 1) * pp\<bar> \<le> 2 ^ 53"
    and "\<bar>(pg - 1) * pp + pc\<bar> \<le> 2 ^ 53"
  shows "loadedCount (pageInfo pg pp pc tc) = JNum ((pg - 1) * pp + pc)"
  using assms
  by (simp add: loadedCount_def js_get_pageInfo js_sub_exact js_mul_exact js_add_exact)

lemma lastPage_numeric:
  assumes "\<bar>pg - 1\<bar> \<le> 2 ^ 53" and "\<bar>(pg - 1) * pp\<bar> \<le> 2 ^ 53"
    and "\<bar>(pg - 1) * pp + pc\<bar> \<le> 2 ^ 53"
  shows "lastPage (pageInfo pg pp pc tc) = (tc \<le> (pg - 1) * pp + pc)"
  using assms
  by (simp add: lastPage_def loadedCount_numeric js_get_pageInfo js_le_num)

lemma loadedCount_loading: "loadedCount (pg(''loading'' \<mapsto> v)) = loadedCount pg"
  by (simp add: loadedCount_def js_get_upd)

lemma lastPage_loading: "lastPage (pg(''loading'' \<mapsto> v)) = lastPage pg"
  by (simp add: lastPage_def loadedCount_loading js_get_upd)

lemma js_get_pageInfo_page: "js_get (pageInfo pg pp pc tc) ''page'' = JNum pg"
  by (simp add: js_get_pageInfo)

lemma onEndReached_next:
  assumes "pagination c = (pageInfo pg pp pc tc)(''loading'' \<mapsto> JBool False)"
    and "\<bar>pg - 1\<bar> \<le> 2 ^ 53" and "\<bar>(pg - 1) * pp\<bar> \<le> 2 ^ 53"
    and "\<bar>(pg - 1) * pp + pc\<bar> \<le> 2 ^ 53" and "\<bar>pg + 1\<bar> \<le> 2 ^ 53"
    and "\<not> tc \<le> (pg - 1) * pp + pc"
  shows "onEndReached c = getPosts (JNum (pg + 1)) c"
  using assms
  by (simp add: onEndReached_def lastPage_loading lastPage_numeric js_not_def js_get_upd
      js_get_pageInfo_page js_add_exact)

text \<open>
  Beyond \<open>2 ^ 53\<close> the doubles round. With \<open>page = 4\<close>,
  \<open>perPage = 3002399751580331\<close>, \<open>pageCount = 1\<close> and \<open>totalCount = 2 ^ 53 + 2\<close> the
  product \<open>2 ^ 53 + 1\<close> and then the sum round to \<open>2 ^ 53\<close>: the total is reached as
  integers go, the comparison is false all the same, and page 5 is fetched. With
  \<open>page = 2\<close>, \<open>perPage = 2 ^ 53\<close>, \<open>pageCount = 3\<close> and \<open>totalCount = 2 ^ 53 + 4\<close> the
  sum rounds up to the total: the comparison is true, and nothing is fetched. At
  \<open>page = 2 ^ 53\<close> the next page, \<^verbatim>\<open>page + 1\<close>, is \<open>2 ^ 53\<close> again.
\<close>

lemma bitlen_numeral:
  "bitlen 0 = 0"
  "bitlen (Suc 0) = Suc 0"
  "bitlen (numeral (Num.Bit0 k)) = Suc (bitlen (numeral k))"
  "bitlen (numeral (Num.Bit1 k)) = Suc (bitlen (numeral k))"
proof -
  show "bitlen 0 = 0" by (simp add: bitlen.simps)
  show "bitlen (Suc 0) = Suc 0" by (simp add: bitlen.simps [of "Suc 0"] bitlen.simps [of 0])
  show "bitlen (numeral (Num.Bit0 k)) = Suc (bitlen (numeral k))"
    by (subst bitlen.simps) simp
  show "bitlen (numeral (Num.Bit1 k)) = Suc (bitlen (numeral k))"
    by (subst bitlen.simps) simp
qed

lemma round_double_examples:
  "round_double 9007199254740993 = JNum 9007199254740992"
  "round_double 9007199254740995 = JNum 9007199254740996"
  "round_double (- 9007199254740995) = JNum (- 9007199254740996)"
  by (simp_all add: round_double_def Let_def bitlen_numeral)

lemma lastPage_rounds_down:
  "\<not> lastPage (pageInfo 4 3002399751580331 1 9007199254740994)"
  by (simp add: lastPage_def loadedCount_def js_get_pageInfo js_le_def js_add_def js_sub_def
      js_mul_def round_double_def Let_def bitlen_numeral)

lemma onEndReached_rounds_down:
  "fetches (effects (onEndReached
     (\<lparr>pagination = (pageInfo 4 3002399751580331 1 9007199254740994)
                       (''loading'' \<mapsto> JBool False),
       posts = [], ds = [], effects = []\<rparr> :: (nat, unit) component))) = [JNum 5]"
  by (simp add: onEndReached_def lastPage_loading lastPage_rounds_down js_not_def js_get_upd
      js_get_pageInfo js_add_exact fetches_getPosts)

lemma lastPage_rounds_up:
  "lastPage (pageInfo 2 9007199254740992 3 9007199254740996)"
  by (simp add: lastPage_def loadedCount_def js_get_pageInfo js_le_def js_add_def js_sub_def
      js_mul_def round_double_def Let_def bitlen_numeral)

lemma onEndReached_rounds_up:
  "fetches (effects (onEndReached
     (\<lparr>pagination = (pageInfo 2 9007199254740992 3 9007199254740996)
                       (''loading'' \<mapsto> JBool False),
       posts = [], ds = [], effects = []\<rparr> :: (nat, unit) component))) = []"
  by (simp add: onEndReached_def lastPage_loading lastPage_rounds_up)

lemma next_page_rounds:
  "js_add (JNum 9007199254740992) (JNum 1) = JNum 9007199254740992"
  by (simp add: js_add_def round_double_def Let_def bitlen_numeral)


section \<open>Fetch start\<close>

text \<open>
  C6. \<^verbatim>\<open>_getPosts(n)\<close> sets \<^verbatim>\<open>pagination.loading\<close> to \<^verbatim>\<open>true\<close> and leaves every other
  field of the pagination and the posts as they were, passes the current posts followed
  by the loading marker to \<^verbatim>\<open>setState\<close>, and after that calls \<^verbatim>\<open>API.getPosts(n)\<close>,
  once.
\<close>

theorem getPosts_request_then_fetch:
  "pagination (getPosts n c) = (pagination c)(''loading'' \<mapsto> JBool True) \<and>
   posts (getPosts n c) = posts c \<and>
   effects (getPosts n c) =
     effects c @
     [SetState ((pagination c)(''loading'' \<mapsto> JBool True)) (posts c)
        (map PostRow (posts c) @ [LoadingRow (JBool True)]),
      Fetch n] \<and>
   fetches (effects (getPosts n c)) = fetches (effects c) @ [n]"
  by (simp add: getPosts_def Let_def getPostsRequest_fields fetches_append)


section \<open>Fetch success\<close>

text \<open>
  C1. When the promise resolves with the payload \<open>r\<close> whose pagination has the page
  number \<open>n\<close>: for \<open>n = 1\<close> the posts become the records of \<open>r\<close> and nothing else; for
  \<open>n > 1\<close> they become the posts held so far followed by the records, in order, with
  nothing removed; in both cases the stored pagination is that of \<open>r\<close> with \<^verbatim>\<open>loading\<close>
  set to \<^verbatim>\<open>false\<close>.
\<close>

theorem getPostsSuccess_reset_or_append:
  assumes "js_get (r_pagination r) ''page'' = JNum n"
  shows "(n = 1 \<longrightarrow> posts (settle (Resolved r) c) = records r) \<and>
         (1 < n \<longrightarrow> posts (settle (Resolved r) c) = posts c @ records r) \<and>
         pagination (settle (Resolved r) c) = (r_pagination r)(''loading'' \<mapsto> JBool False) \<and>
         js_get (pagination (settle (Resolved r) c)) ''loading'' = JBool False"
  using assms by (simp add: getPostsSuccess_fields js_get_upd)

theorem getPostsSuccess_reset_or_append_witness:
  "posts (settle (Resolved \<lparr>r_pagination = pageInfo 1 10 10 22, records = [5, 6 :: nat]\<rparr>)
       (\<lparr>pagination = Map.empty, posts = [5, 7], ds = [], effects = []\<rparr>
          :: (nat, unit) component)) = [5, 6] \<and>
   posts (settle (Resolved \<lparr>r_pagination = pageInfo 2 10 10 22, records = [5, 6 :: nat]\<rparr>)
       (\<lparr>pagination = Map.empty, posts = [5, 7], ds = [], effects = []\<rparr>
          :: (nat, unit) component)) = [5, 7, 5, 6]"
  using
    getPostsSuccess_reset_or_append
      [of "\<lparr>r_pagination = pageInfo 1 10 10 22, records = [5, 6 :: nat]\<rparr>" 1
          "\<lparr>pagination = Map.empty, posts = [5, 7], ds = [], effects = []\<rparr>
             :: (nat, unit) component"]
    getPostsSuccess_reset_or_append
      [of "\<lparr>r_pagination = pageInfo 2 10 10 22, records = [5, 6 :: nat]\<rparr>" 2
          "\<lparr>pagination = Map.empty, posts = [5, 7], ds = [], effects = []\<rparr>
             :: (nat, unit) component"]
  by (simp add: pageInfo_def js_get_def)


section \<open>Fetch failure\<close>

text \<open>
  C4. When the promise is rejected with \<open>err\<close>, in whatever state the component is
  then: the posts stay as they are at that moment, \<^verbatim>\<open>loading\<close> becomes \<^verbatim>\<open>false\<close> and
  every other field of the pagination stays as it is at that moment, and the component's
  only effects are the \<^verbatim>\<open>setState\<close> with the unchanged posts and \<^verbatim>\<open>console.error(err)\<close>:
  no fetch, and nothing handed back to whoever called \<^verbatim>\<open>_getPosts\<close>, \<^verbatim>\<open>_onRefresh\<close> or
  \<^verbatim>\<open>_onEndReached\<close> (these have returned already; the rejection is consumed by
  \<open>settle\<close>, whose result is the component alone). When the rejection follows its
  request with nothing settling in between, the posts and the pagination fields other
  than \<^verbatim>\<open>loading\<close> are those from before the request.
\<close>

theorem getPostsFailure_keeps_items:
  "posts (settle (Rejected err) c) = posts c \<and>
   pagination (settle (Rejected err) c) = (pagination c)(''loading'' \<mapsto> JBool False) \<and>
   js_get (pagination (settle (Rejected err) c)) ''loading'' = JBool False \<and>
   effects (settle (Rejected err) c) =
     effects c @
     [SetState ((pagination c)(''loading'' \<mapsto> JBool False)) (posts c)
        (map PostRow (posts c) @ [LoadingRow (JBool False)]),
      ConsoleError err] \<and>
   fetches (effects (settle (Rejected err) c)) = fetches (effects c) \<and>
   posts (settle (Rejected err) (getPosts n c)) = posts c \<and>
   pagination (settle (Rejected err) (getPosts n c)) =
     (pagination c)(''loading'' \<mapsto> JBool False)"
  by (simp add: getPostsFailure_fields getPosts_fields js_get_upd fetches_append)

text \<open>
  The posts after a failure are not always those from before the failed request. In the
  run \<open>overtaken\<close> page 2 is requested when the posts are \<open>[1, 2]\<close> of 6; the refresh
  issued after that request resolves first; when the request for page 2 is then
  rejected, the posts are \<open>[7, 8, 9]\<close> and the total is 9.
\<close>

lemma beforePage2_state:
  "pagination beforePage2 = (pageInfo 1 2 2 6)(''loading'' \<mapsto> JBool False)"
  "posts beforePage2 = [1, 2]"
  "fetches (effects beforePage2) = [JNum 1]"
  by (simp_all add: beforePage2_def componentWillMount_def constructor_def
      getPostsSuccess_fields(1,2) js_get_pageInfo_page fetches_getPostsSuccess
      fetches_getPosts)

lemma beforePage2_requests_page2:
  "onEndReached beforePage2 = getPosts (JNum 2) beforePage2"
  using onEndReached_next [OF beforePage2_state(1)] by simp

theorem getPostsFailure_overtaken_counterexample:
  "fetches (effects (onEndReached beforePage2)) = [JNum 1, JNum 2] \<and>
   posts beforePage2 = [1, 2] \<and>
   js_get (pagination beforePage2) ''totalCount'' = JNum 6 \<and>
   fetches (effects overtaken) = [JNum 1, JNum 2, JNum 1] \<and>
   posts overtaken = [7, 8, 9] \<and>
   js_get (pagination overtaken) ''totalCount'' = JNum 9 \<and>
   posts overtaken \<noteq> posts beforePage2 \<and>
   js_get (pagination overtaken) ''totalCount'' \<noteq>
     js_get (pagination beforePage2) ''totalCount''"
  by (simp add: overtaken_def beforePage2_requests_page2 beforePage2_state onRefresh_def
      getPostsFailure_fields(1,2) getPostsSuccess_fields(1,2) fetches_getPosts
      fetches_getPostsSuccess getPostsFailure_fields(3) fetches_append
      js_get_upd js_get_pageInfo)


section \<open>The render list\<close>

lemma filter_isLoading_posts: "filter isLoading (map PostRow ps) = []"
  by (induction ps) simp_all

lemma renderList_one_marker: "length (filter isLoading (renderList pg ps)) = 1"
  by (simp add: renderList_def filter_isLoading_posts)

lemma ds_getPostsRequest:
  "ds (getPostsRequest c) =
     renderList (pagination (getPostsRequest c)) (posts (getPostsRequest c))"
  by (simp add: getPostsRequest_def Let_def update_fields)

lemma ds_getPostsSuccess:
  "ds (getPostsSuccess r c) =
     renderList (pagination (getPostsSuccess r c)) (posts (getPostsSuccess r c))"
  by (simp add: getPostsSuccess_def Let_def update_fields)

lemma ds_getPostsFailure:
  "ds (getPostsFailure err c) =
     renderList (pagination (getPostsFailure err c)) (posts (getPostsFailure err c))"
  by (simp add: getPostsFailure_def Let_def update_fields)

lemma emitted_getPostsRequest:
  "effects (getPostsRequest c) = effects c @
     [SetState (pagination (getPostsRequest c)) (posts (getPostsRequest c))
        (ds (getPostsRequest c))]"
  by (simp add: getPostsRequest_def Let_def update_fields)

lemma emitted_getPostsSuccess:
  "effects (getPostsSuccess r c) = effects c @
     [SetState (pagination (getPostsSuccess r c)) (posts (getPostsSuccess r c))
        (ds (getPostsSuccess r c))]"
  by (simp add: getPostsSuccess_def Let_def update_fields)

lemma emitted_getPostsFailure:
  "effects (getPostsFailure err c) = effects c @
     [SetState (pagination (getPostsFailure err c)) (posts (getPostsFailure err c))
        (ds (getPostsFailure err c)),
      ConsoleError err]"
  by (simp add: getPostsFailure_def Let_def update_fields)

text \<open>
  C8. At each update (fetch start, fetch success, fetch failure) the rows given to the
  data source, which are the rows passed to \<^verbatim>\<open>setState\<close>, are the posts in order
  followed by one loading marker, the only one in the list, carrying the value of
  \<^verbatim>\<open>pagination.loading\<close> of the state just set.
\<close>

theorem render_list_items_then_marker:
  "ds (getPostsRequest c) =
     map PostRow (posts (getPostsRequest c)) @
     [LoadingRow (js_get (pagination (getPostsRequest c)) ''loading'')] \<and>
   ds (getPostsSuccess r c) =
     map PostRow (posts (getPostsSuccess r c)) @
     [LoadingRow (js_get (pagination (getPostsSuccess r c)) ''loading'')] \<and>
   ds (getPostsFailure err c) =
     map PostRow (posts (getPostsFailure err c)) @
     [LoadingRow (js_get (pagination (getPostsFailure err c)) ''loading'')] \<and>
   length (filter isLoading (ds (getPostsRequest c))) = 1 \<and>
   length (filter isLoading (ds (getPostsSuccess r c))) = 1 \<and>
   length (filter isLoading (ds (getPostsFailure err c))) = 1 \<and>
   effects (getPostsRequest c) = effects c @
     [SetState (pagination (getPostsRequest c)) (posts (getPostsRequest c))
        (ds (getPostsRequest c))] \<and>
   effects (getPostsSuccess r c) = effects c @
     [SetState (pagination (getPostsSuccess r c)) (posts (getPostsSuccess r c))
        (ds (getPostsSuccess r c))] \<and>
   effects (getPostsFailure err c) = effects c @
     [SetState (pagination (getPostsFailure err c)) (posts (getPostsFailure err c))
        (ds (getPostsFailure err c)),
      ConsoleError err]"
proof -
  have shape: "\<And>pg ps. renderList pg (ps :: 'a list) =
      map PostRow ps @ [LoadingRow (js_get pg ''loading'')]"
    by (simp add: renderList_def)
  have "ds (getPostsRequest c) =
     map PostRow (posts (getPostsRequest c)) @
     [LoadingRow (js_get (pagination (getPostsRequest c)) ''loading'')]"
    using ds_getPostsRequest [of c] by (simp only: shape)
  moreover have "ds (getPostsSuccess r c) =
     map PostRow (posts (getPostsSuccess r c)) @
     [LoadingRow (js_get (pagination (getPostsSuccess r c)) ''loading'')]"
    using ds_getPostsSuccess [of r c] by (simp only: shape)
  moreover have "ds (getPostsFailure err c) =
     map PostRow (posts (getPostsFailure err c)) @
     [LoadingRow (js_get (pagination (getPostsFailure err c)) ''loading'')]"
    using ds_getPostsFailure [of err c] by (simp only: shape)
  moreover have "length (filter isLoading (ds (getPostsRequest c))) = 1"
    by (simp only: ds_getPostsRequest renderList_one_marker)
  moreover have "length (filter isLoading (ds (getPostsSuccess r c))) = 1"
    by (simp only: ds_getPostsSuccess renderList_one_marker)
  moreover have "length (filter isLoading (ds (getPostsFailure err c))) = 1"
    by (simp only: ds_getPostsFailure renderList_one_marker)
  ultimately show ?thesis
    using emitted_getPostsRequest [of c] emitted_getPostsSuccess [of r c]
      emitted_getPostsFailure [of err c]
    by blast
qed


section \<open>End of list reached\<close>

text \<open>
  C2. In a state whose pagination satisfies
  \<^verbatim>\<open>totalCount <= (page - 1) * perPage + pageCount\<close>, \<^verbatim>\<open>_onEndReached\<close> changes nothing
  and asks for no page, whatever \<^verbatim>\<open>loading\<close> is. The condition is stated twice: as the
  comparison the method evaluates, in every state; and, for integer fields whose
  intermediate results stay within \<open>2 ^ 53\<close>, where doubles do not round, as the
  inequality between the integers, with any value \<open>v\<close> of \<^verbatim>\<open>loading\<close>.
\<close>

theorem onEndReached_lastPage_noop:
  "(lastPage (pagination c) \<longrightarrow>
      onEndReached c = c \<and> fetches (effects (onEndReached c)) = fetches (effects c)) \<and>
   (pagination c = (pageInfo pg pp pc tc)(''loading'' \<mapsto> v) \<and>
    \<bar>pg - 1\<bar> \<le> 2 ^ 53 \<and> \<bar>(pg - 1) * pp\<bar> \<le> 2 ^ 53 \<and>
    \<bar>(pg - 1) * pp + pc\<bar> \<le> 2 ^ 53 \<and>
    tc \<le> (pg - 1) * pp + pc \<longrightarrow>
      onEndReached c = c \<and> fetches (effects (onEndReached c)) = fetches (effects c))"
  by (simp add: onEndReached_def lastPage_loading lastPage_numeric)

theorem onEndReached_lastPage_noop_witness:
  "onEndReached
     (\<lparr>pagination = (pageInfo 3 10 2 22)(''loading'' \<mapsto> JBool False),
       posts = [1, 2, 3 :: nat], ds = [], effects = [Fetch (JNum 3)]\<rparr>
        :: (nat, unit) component) =
   \<lparr>pagination = (pageInfo 3 10 2 22)(''loading'' \<mapsto> JBool False),
     posts = [1, 2, 3 :: nat], ds = [], effects = [Fetch (JNum 3)]\<rparr> \<and>
   fetches (effects (onEndReached
     (\<lparr>pagination = (pageInfo 3 10 2 22)(''loading'' \<mapsto> JBool True),
       posts = [1, 2, 3 :: nat], ds = [], effects = [Fetch (JNum 3)]\<rparr>
        :: (nat, unit) component))) = [JNum 3]"
proof -
  have by_numbers:
    "onEndReached
       (\<lparr>pagination = (pageInfo 3 10 2 22)(''loading'' \<mapsto> JBool False),
         posts = [1, 2, 3 :: nat], ds = [], effects = [Fetch (JNum 3)]\<rparr>
          :: (nat, unit) component) =
     \<lparr>pagination = (pageInfo 3 10 2 22)(''loading'' \<mapsto> JBool False),
       posts = [1, 2, 3 :: nat], ds = [], effects = [Fetch (JNum 3)]\<rparr>"
    using onEndReached_lastPage_noop
        [of "\<lparr>pagination = (pageInfo 3 10 2 22)(''loading'' \<mapsto> JBool False),
               posts = [1, 2, 3 :: nat], ds = [], effects = [Fetch (JNum 3)]\<rparr>
              :: (nat, unit) component" 3 10 2 22 "JBool False",
         THEN conjunct2]
    by simp
  have last: "lastPage ((pageInfo 3 10 2 22)(''loading'' \<mapsto> JBool True))"
    by (simp add: lastPage_loading lastPage_numeric)
  have by_comparison:
    "fetches (effects (onEndReached
       (\<lparr>pagination = (pageInfo 3 10 2 22)(''loading'' \<mapsto> JBool True),
         posts = [1, 2, 3 :: nat], ds = [], effects = [Fetch (JNum 3)]\<rparr>
          :: (nat, unit) component))) = [JNum 3]"
    using last
      onEndReached_lastPage_noop
        [of "\<lparr>pagination = (pageInfo 3 10 2 22)(''loading'' \<mapsto> JBool True),
               posts = [1, 2, 3 :: nat], ds = [], effects = [Fetch (JNum 3)]\<rparr>
              :: (nat, unit) component" 0 0 0 0 JUndefined,
         THEN conjunct1]
    by simp
  show ?thesis
    using by_numbers by_comparison by (rule conjI)
qed


text \<open>
  C3. While \<^verbatim>\<open>loading\<close> is \<^verbatim>\<open>true\<close>, \<^verbatim>\<open>_onEndReached\<close> changes nothing and asks for no
  page, whatever the other fields are. When \<^verbatim>\<open>loading\<close> is \<^verbatim>\<open>false\<close> and the last page
  is not reached (the comparison of the method is false), it is \<^verbatim>\<open>_getPosts(page + 1)\<close>:
  exactly one more fetch, of \<^verbatim>\<open>page + 1\<close> as the method computes it; for an integer page
  \<open>p\<close> with \<open>p + 1\<close> within \<open>2 ^ 53\<close> that is the integer \<open>p + 1\<close>.
\<close>

theorem onEndReached_loading_gate:
  "(js_get (pagination c) ''loading'' = JBool True \<longrightarrow>
      onEndReached c = c \<and> fetches (effects (onEndReached c)) = fetches (effects c)) \<and>
   (js_get (pagination c) ''loading'' = JBool False \<and> \<not> lastPage (pagination c) \<longrightarrow>
      onEndReached c = getPosts (js_add (js_get (pagination c) ''page'') (JNum 1)) c \<and>
      fetches (effects (onEndReached c)) =
        fetches (effects c) @ [js_add (js_get (pagination c) ''page'') (JNum 1)]) \<and>
   (js_get (pagination c) ''loading'' = JBool False \<and> \<not> lastPage (pagination c) \<and>
    js_get (pagination c) ''page'' = JNum p \<and> \<bar>p + 1\<bar> \<le> 2 ^ 53 \<longrightarrow>
      fetches (effects (onEndReached c)) = fetches (effects c) @ [JNum (p + 1)])"
  by (simp add: onEndReached_def js_not_def getPosts_fields fetches_append js_add_exact)

theorem onEndReached_loading_gate_witness:
  "onEndReached
     (\<lparr>pagination = (pageInfo 1 10 10 22)(''loading'' \<mapsto> JBool True),
       posts = [1, 2 :: nat], ds = [], effects = []\<rparr> :: (nat, unit) component) =
   \<lparr>pagination = (pageInfo 1 10 10 22)(''loading'' \<mapsto> JBool True),
     posts = [1, 2 :: nat], ds = [], effects = []\<rparr> \<and>
   fetches (effects (onEndReached
     (\<lparr>pagination = (pageInfo 1 10 10 22)(''loading'' \<mapsto> JBool False),
       posts = [1, 2 :: nat], ds = [], effects = []\<rparr> :: (nat, unit) component))) =
   [JNum 2]"
proof -
  have notlast: "\<not> lastPage ((pageInfo 1 10 10 22)(''loading'' \<mapsto> JBool False))"
    by (simp add: lastPage_loading lastPage_numeric)
  have page: "js_get ((pageInfo 1 10 10 22)(''loading'' \<mapsto> JBool False)) ''page'' = JNum 1"
    by (simp add: pageInfo_def js_get_def)
  have gate_closed:
    "onEndReached
       (\<lparr>pagination = (pageInfo 1 10 10 22)(''loading'' \<mapsto> JBool True),
         posts = [1, 2 :: nat], ds = [], effects = []\<rparr> :: (nat, unit) component) =
     \<lparr>pagination = (pageInfo 1 10 10 22)(''loading'' \<mapsto> JBool True),
       posts = [1, 2 :: nat], ds = [], effects = []\<rparr>"
    using onEndReached_loading_gate
        [of "\<lparr>pagination = (pageInfo 1 10 10 22)(''loading'' \<mapsto> JBool True),
               posts = [1, 2 :: nat], ds = [], effects = []\<rparr> :: (nat, unit) component" 1,
         THEN conjunct1]
    by (simp add: js_get_upd)
  have gate_open:
    "fetches (effects (onEndReached
       (\<lparr>pagination = (pageInfo 1 10 10 22)(''loading'' \<mapsto> JBool False),
         posts = [1, 2 :: nat], ds = [], effects = []\<rparr> :: (nat, unit) component))) =
     [JNum 2]"
    using notlast page
      onEndReached_loading_gate
        [of "\<lparr>pagination = (pageInfo 1 10 10 22)(''loading'' \<mapsto> JBool False),
               posts = [1, 2 :: nat], ds = [], effects = []\<rparr> :: (nat, unit) component" 1,
         THEN conjunct2, THEN conjunct2]
    by (simp add: js_get_upd)
  show ?thesis
    using gate_closed gate_open by (rule conjI)
qed


section \<open>Refresh\<close>

text \<open>
  C5. \<^verbatim>\<open>_onRefresh\<close> is \<^verbatim>\<open>_getPosts(1)\<close> in every state: it asks for page 1 whatever the
  current page, the posts held and the \<^verbatim>\<open>loading\<close> flag are.
\<close>

theorem onRefresh_requests_first_page:
  "onRefresh c = getPosts (JNum 1) c \<and>
   effects (onRefresh c) =
     effects c @
     [SetState ((pagination c)(''loading'' \<mapsto> JBool True)) (posts c)
        (map PostRow (posts c) @ [LoadingRow (JBool True)]),
      Fetch (JNum 1)] \<and>
   fetches (effects (onRefresh c)) = fetches (effects c) @ [JNum 1]"
  by (simp add: onRefresh_def getPosts_fields fetches_append)


section \<open>Before the first page\<close>

text \<open>
  The same request is made in a state the running component reaches: the first fetch,
  issued on mount, is rejected, and the end of the (empty) list is reached.
\<close>

lemma onEndReached_after_failed_first_fetch:
  "fetches (effects (onEndReached (settle (Rejected err)
      (componentWillMount (constructor :: ('a, 'e) component))))) = [JNum 1, JNaN]"
  by (simp add: onEndReached_def constructor_def componentWillMount_def lastPage_def
      loadedCount_def js_get_def js_le_def js_not_def js_add_def js_sub_def js_mul_def
      getPosts_fields getPostsFailure_fields fetches_append)

text \<open>
  C9. In the state the constructor builds (pagination \<^verbatim>\<open>{}\<close>), \<^verbatim>\<open>_onEndReached\<close> does
  fetch: the comparison \<^verbatim>\<open>undefined <= NaN\<close> is false, \<^verbatim>\<open>!undefined\<close> is true, and the
  page asked for is \<^verbatim>\<open>undefined + 1\<close>, that is \<^verbatim>\<open>NaN\<close>.
\<close>

theorem onEndReached_uninitialised_fetches_NaN:
  "\<not> lastPage (pagination (constructor :: ('a, 'e) component)) \<and>
   loadedCount (pagination (constructor :: ('a, 'e) component)) = JNaN \<and>
   js_not (js_get (pagination (constructor :: ('a, 'e) component)) ''loading'') \<and>
   js_add (js_get (pagination (constructor :: ('a, 'e) component)) ''page'') (JNum 1) = JNaN \<and>
   onEndReached (constructor :: ('a, 'e) component) = getPosts JNaN constructor \<and>
   effects (onEndReached (constructor :: ('a, 'e) component)) =
     [SetState [''loading'' \<mapsto> JBool True] [] [LoadingRow (JBool True)], Fetch JNaN] \<and>
   fetches (effects (onEndReached (constructor :: ('a, 'e) component))) = [JNaN]"
  by (simp add: onEndReached_def constructor_def lastPage_def loadedCount_def js_get_def
      js_le_def js_not_def js_add_def js_sub_def js_mul_def getPosts_fields)


section \<open>Page 1 forgets the past\<close>

text \<open>
  C10. Two components with any posts whatsoever hold the same posts after the same
  page-1 payload has been applied to each: the records of that payload.
\<close>

theorem page1_success_independent_of_items:
  assumes "js_get (r_pagination r) ''page'' = JNum 1"
  shows "posts (getPostsSuccess r c1) = posts (getPostsSuccess r c2) \<and>
         posts (getPostsSuccess r c1) = records r"
  using assms by (simp add: getPostsSuccess_fields)

theorem page1_success_independent_of_items_witness:
  "posts (getPostsSuccess \<lparr>r_pagination = pageInfo 1 10 10 22, records = [4, 5 :: nat]\<rparr>
       (\<lparr>pagination = Map.empty, posts = [1, 2, 3], ds = [], effects = []\<rparr>
          :: (nat, unit) component)) =
   posts (getPostsSuccess \<lparr>r_pagination = pageInfo 1 10 10 22, records = [4, 5 :: nat]\<rparr>
       (\<lparr>pagination = pageInfo 2 10 10 22, posts = [9], ds = [], effects = []\<rparr>
          :: (nat, unit) component))"
proof -
  have page: "js_get (r_pagination
      \<lparr>r_pagination = pageInfo 1 10 10 22, records = [4, 5 :: nat]\<rparr>) ''page'' = JNum 1"
    by (simp add: pageInfo_def js_get_def)
  show ?thesis
    by (rule page1_success_independent_of_items [OF page, THEN conjunct1])
qed


section \<open>The example run\<close>

lemma afterPage1_state:
  "pagination (afterPage1 r1 :: ('a, 'e) component) =
     (pageInfo 1 10 10 22)(''loading'' \<mapsto> JBool False)"
  "posts (afterPage1 r1 :: ('a, 'e) component) = r1"
  "fetches (effects (afterPage1 r1 :: ('a, 'e) component)) = [JNum 1]"
  by (simp_all add: afterPage1_def componentWillMount_def constructor_def
      getPostsSuccess_fields(1,2) js_get_pageInfo_page fetches_getPostsSuccess
      fetches_getPosts)

lemma afterPage2_state:
  "pagination (afterPage2 r1 r2 :: ('a, 'e) component) =
     (pageInfo 2 10 10 22)(''loading'' \<mapsto> JBool False)"
  "posts (afterPage2 r1 r2 :: ('a, 'e) component) = r1 @ r2"
  "fetches (effects (afterPage2 r1 r2 :: ('a, 'e) component)) = [JNum 1, JNum 2]"
proof -
  have step: "onEndReached (afterPage1 r1 :: ('a, 'e) component) =
      getPosts (JNum 2) (afterPage1 r1)"
    using onEndReached_next [OF afterPage1_state(1) [of r1]] by simp
  show "pagination (afterPage2 r1 r2 :: ('a, 'e) component) =
      (pageInfo 2 10 10 22)(''loading'' \<mapsto> JBool False)"
    by (simp add: afterPage2_def getPostsSuccess_fields(1))
  show "posts (afterPage2 r1 r2 :: ('a, 'e) component) = r1 @ r2"
    by (simp add: afterPage2_def step getPostsSuccess_fields(2) js_get_pageInfo_page
        getPosts_fields(2) afterPage1_state(2))
  show "fetches (effects (afterPage2 r1 r2 :: ('a, 'e) component)) = [JNum 1, JNum 2]"
    by (simp add: afterPage2_def step fetches_getPostsSuccess fetches_getPosts
        afterPage1_state(3))
qed

lemma afterPage3_state:
  "pagination (afterPage3 r1 r2 r3 :: ('a, 'e) component) =
     (pageInfo 3 10 2 22)(''loading'' \<mapsto> JBool False)"
  "posts (afterPage3 r1 r2 r3 :: ('a, 'e) component) = r1 @ r2 @ r3"
  "fetches (effects (afterPage3 r1 r2 r3 :: ('a, 'e) component)) = [JNum 1, JNum 2, JNum 3]"
proof -
  have step: "onEndReached (afterPage2 r1 r2 :: ('a, 'e) component) =
      getPosts (JNum 3) (afterPage2 r1 r2)"
    using onEndReached_next [OF afterPage2_state(1) [of r1 r2]] by simp
  show "pagination (afterPage3 r1 r2 r3 :: ('a, 'e) component) =
      (pageInfo 3 10 2 22)(''loading'' \<mapsto> JBool False)"
    by (simp add: afterPage3_def getPostsSuccess_fields(1))
  show "posts (afterPage3 r1 r2 r3 :: ('a, 'e) component) = r1 @ r2 @ r3"
    by (simp add: afterPage3_def step getPostsSuccess_fields(2) js_get_pageInfo_page
        getPosts_fields(2) afterPage2_state(2))
  show "fetches (effects (afterPage3 r1 r2 r3 :: ('a, 'e) component)) =
      [JNum 1, JNum 2, JNum 3]"
    by (simp add: afterPage3_def step fetches_getPostsSuccess fetches_getPosts
        afterPage2_state(3))
qed

text \<open>
  C7. With 22 posts in pages of 10: after pages 1 and 2 have arrived, the comparison of
  \<^verbatim>\<open>_onEndReached\<close> is \<open>22 \<le> (2 - 1) * 10 + 10 = 20\<close>, false, and page 3 is requested;
  after page 3 has arrived with 2 posts it is \<open>22 \<le> (3 - 1) * 10 + 2 = 22\<close>, true, and
  reaching the end again changes nothing and fetches nothing.
\<close>

theorem scenario_22_posts_by_10:
  "loadedCount (pagination (afterPage2 r1 r2 :: ('a, 'e) component)) = JNum 20 \<and>
   \<not> lastPage (pagination (afterPage2 r1 r2 :: ('a, 'e) component)) \<and>
   js_get (pagination (afterPage2 r1 r2 :: ('a, 'e) component)) ''loading'' = JBool False \<and>
   fetches (effects (afterPage2 r1 r2 :: ('a, 'e) component)) = [JNum 1, JNum 2] \<and>
   fetches (effects (onEndReached (afterPage2 r1 r2 :: ('a, 'e) component))) =
     [JNum 1, JNum 2, JNum 3] \<and>
   loadedCount (pagination (afterPage3 r1 r2 r3 :: ('a, 'e) component)) = JNum 22 \<and>
   lastPage (pagination (afterPage3 r1 r2 r3 :: ('a, 'e) component)) \<and>
   posts (afterPage3 r1 r2 r3 :: ('a, 'e) component) = r1 @ r2 @ r3 \<and>
   onEndReached (afterPage3 r1 r2 r3 :: ('a, 'e) component) = afterPage3 r1 r2 r3 \<and>
   fetches (effects (onEndReached (afterPage3 r1 r2 r3 :: ('a, 'e) component))) =
     [JNum 1, JNum 2, JNum 3]"
proof -
  have next3: "onEndReached (afterPage2 r1 r2 :: ('a, 'e) component) =
      getPosts (JNum 3) (afterPage2 r1 r2)"
    using onEndReached_next [OF afterPage2_state(1) [of r1 r2]] by simp
  have last3: "lastPage (pagination (afterPage3 r1 r2 r3 :: ('a, 'e) component))"
    by (simp add: afterPage3_state lastPage_loading lastPage_numeric)
  have stop: "onEndReached (afterPage3 r1 r2 r3 :: ('a, 'e) component) = afterPage3 r1 r2 r3"
    using last3 by (simp add: onEndReached_def)
  show ?thesis
    by (simp add: stop next3 fetches_getPosts afterPage2_state afterPage3_state
        lastPage_loading lastPage_numeric loadedCount_loading loadedCount_numeric js_get_upd)
qed

end
